theory Spec2Isabelle
  imports Complex_Main
begin

section \<open>Values of the engine\<close>

text \<open>
  The Data Syncing module of \<^verbatim>\<open>src/examples/optimize_gas.js\<close> works on JavaScript values
  that come out of \<^verbatim>\<open>JSON.parse\<close> and out of the HTTP client. A number is a double: it
  is kept here by its exact value (every finite double is a rational) or as one of the two
  infinities; no arithmetic is done on it, so no rounding is involved. A string inside a
  document, a name and a path are kept as Isabelle strings, by their UTF-8 bytes; the
  text that goes to a file and comes from it is kept by its code units (next section). An
  object is the list of its own properties in enumeration order.
\<close>

datatype number = Finite rat | PosInfinity | NegInfinity

datatype json =
    JNull
  | JBool bool
  | JNum number
  | JStr string
  | JArr "json list"
  | JObj "(string \<times> json) list"

text \<open>
  What a \<^verbatim>\<open>throw\<close> carries. \<open>Error\<close> is \<^verbatim>\<open>new Error(message)\<close> of the module itself;
  \<open>TypeError\<close> and \<open>SyntaxError\<close> are raised by the engine; \<open>AxiosError\<close> by the HTTP
  client and \<open>SystemError\<close> by the file system, with the message they give.
\<close>

datatype error =
    Error string
  | TypeError
  | SyntaxError
  | AxiosError string
  | SystemError string

text \<open>\<^verbatim>\<open>if (localData)\<close>: the truth value of a parsed document.\<close>

fun truthy :: "json \<Rightarrow> bool" where
  "truthy JNull = False"
| "truthy (JBool b) = b"
| "truthy (JNum n) = (n \<noteq> Finite 0)"
| "truthy (JStr s) = (s \<noteq> [])"
| "truthy (JArr _) = True"
| "truthy (JObj _) = True"

text \<open>
  \<^verbatim>\<open>v.timestamp\<close>: reading the property of \<^verbatim>\<open>null\<close> throws; an object gives its own
  property or \<^verbatim>\<open>undefined\<close> (\<open>None\<close>); numbers, strings, booleans and arrays have no
  property of that name.
\<close>

fun get_timestamp :: "json \<Rightarrow> error + json option" where
  "get_timestamp JNull = Inl TypeError"
| "get_timestamp (JObj props) = Inr (map_of props ''timestamp'')"
| "get_timestamp _ = Inr None"

section \<open>Text and bytes\<close>

text \<open>
  The text the module hands to the file system and gets back from it is a JavaScript
  string, a sequence of UTF-16 code units (numbers below 65536); what is on disk is a
  sequence of bytes. \<^verbatim>\<open>fs.writeFileSync(path, data)\<close> writes a string in UTF-8 and a
  buffer as it is; \<^verbatim>\<open>fs.readFileSync(path, "utf-8")\<close> decodes the bytes as UTF-8.
\<close>

type_synonym jsstring = "nat list"

type_synonym bytes = "nat list"

datatype payload = Text jsstring | Buffer bytes

text \<open>
  The encoder: a surrogate pair is one code point above U+FFFF and takes four bytes, a
  surrogate without its partner is written as U+FFFD (EF BF BD), every other code unit
  takes one to three bytes.
\<close>

definition high_surrogate :: "nat \<Rightarrow> bool" where
  "high_surrogate u = (0xD800 \<le> u \<and> u \<le> 0xDBFF)"

definition low_surrogate :: "nat \<Rightarrow> bool" where
  "low_surrogate u = (0xDC00 \<le> u \<and> u \<le> 0xDFFF)"

definition encode_point :: "nat \<Rightarrow> bytes" where
  "encode_point c =
     (if c < 0x80 then [c]
      else if c < 0x800 then [0xC0 + c div 64, 0x80 + c mod 64]
      else if c < 0x10000 then [0xE0 + c div 4096, 0x80 + c div 64 mod 64, 0x80 + c mod 64]
      else [0xF0 + c div 262144, 0x80 + c div 4096 mod 64, 0x80 + c div 64 mod 64,
            0x80 + c mod 64])"

fun utf8_encode :: "jsstring \<Rightarrow> bytes" where
  "utf8_encode [] = []"
| "utf8_encode [u] =
     (if high_surrogate u \<or> low_surrogate u then [0xEF, 0xBF, 0xBD] else encode_point u)"
| "utf8_encode (u # v # r) =
     (if high_surrogate u \<and> low_surrogate v
      then encode_point (0x10000 + (u - 0xD800) * 1024 + (v - 0xDC00)) @ utf8_encode r
      else if high_surrogate u \<or> low_surrogate u
      then [0xEF, 0xBF, 0xBD] @ utf8_encode (v # r)
      else encode_point u @ utf8_encode (v # r))"

text \<open>
  The decoder, with U+FFFD in the place of every maximal ill-formed part: a byte that
  cannot start a sequence, or the start of a sequence up to the byte that does not
  continue it. Overlong forms, surrogates and code points beyond U+10FFFF are ill-formed,
  which is what the ranges of the second byte say. A code point above U+FFFF comes back
  as a surrogate pair.
\<close>

definition cont :: "nat \<Rightarrow> bool" where
  "cont b = (0x80 \<le> b \<and> b \<le> 0xBF)"

definition second3 :: "nat \<Rightarrow> nat \<Rightarrow> bool" where
  "second3 b0 b1 =
     (if b0 = 0xE0 then 0xA0 \<le> b1 \<and> b1 \<le> 0xBF
      else if b0 = 0xED then 0x80 \<le> b1 \<and> b1 \<le> 0x9F
      else cont b1)"

definition second4 :: "nat \<Rightarrow> nat \<Rightarrow> bool" where
  "second4 b0 b1 =
     (if b0 = 0xF0 then 0x90 \<le> b1 \<and> b1 \<le> 0xBF
      else if b0 = 0xF4 then 0x80 \<le> b1 \<and> b1 \<le> 0x8F
      else cont b1)"

definition units :: "nat \<Rightarrow> jsstring" where
  "units c =
     (if c < 0x10000 then [c]
      else [0xD800 + (c - 0x10000) div 1024, 0xDC00 + (c - 0x10000) mod 1024])"

fun utf8_decode :: "bytes \<Rightarrow> jsstring" where
  "utf8_decode [] = []"
| "utf8_decode (b0 # r) =
     (if b0 < 0x80 then b0 # utf8_decode r
      else if 0xC2 \<le> b0 \<and> b0 \<le> 0xDF then
        (case r of
           [] \<Rightarrow> [0xFFFD]
         | b1 # r1 \<Rightarrow>
             if cont b1 then ((b0 - 0xC0) * 64 + (b1 - 0x80)) # utf8_decode r1
             else 0xFFFD # utf8_decode r)
      else if 0xE0 \<le> b0 \<and> b0 \<le> 0xEF then
        (case r of
           [] \<Rightarrow> [0xFFFD]
         | b1 # r1 \<Rightarrow>
             if second3 b0 b1 then
               (case r1 of
                  [] \<Rightarrow> [0xFFFD]
                | b2 # r2 \<Rightarrow>
                    if cont b2
                    then ((b0 - 0xE0) * 4096 + (b1 - 0x80) * 64 + (b2 - 0x80)) # utf8_decode r2
                    else 0xFFFD # utf8_decode r1)
             else 0xFFFD # utf8_decode r)
      else if 0xF0 \<le> b0 \<and> b0 \<le> 0xF4 then
        (case r of
           [] \<Rightarrow> [0xFFFD]
         | b1 # r1 \<Rightarrow>
             if second4 b0 b1 then
               (case r1 of
                  [] \<Rightarrow> [0xFFFD]
                | b2 # r2 \<Rightarrow>
                    if cont b2 then
                      (case r2 of
                         [] \<Rightarrow> [0xFFFD]
                       | b3 # r3 \<Rightarrow>
                           if cont b3
                           then units ((b0 - 0xF0) * 262144 + (b1 - 0x80) * 4096 +
                                       (b2 - 0x80) * 64 + (b3 - 0x80)) @ utf8_decode r3
                           else 0xFFFD # utf8_decode r2)
                    else 0xFFFD # utf8_decode r1)
             else 0xFFFD # utf8_decode r)
      else 0xFFFD # utf8_decode r)"


text \<open>What \<^verbatim>\<open>writeFileSync\<close> puts on disk for a payload.\<close>

fun written :: "payload \<Rightarrow> bytes" where
  "written (Text s) = utf8_encode s"
| "written (Buffer b) = b"

section \<open>The host: configuration, built-ins and the outside world\<close>

text \<open>The \<^verbatim>\<open>CONFIG\<close> object.\<close>

record node =
  name :: string
  url :: string

record config =
  nodes :: "node list"
  syncInterval :: nat
  dataDirectory :: string
  hashAlgorithm :: string
  conflictResolution :: string

definition node1 :: node where
  "node1 = \<lparr>name = ''Node 1'', url = ''http://node1.blockchain.net/sync''\<rparr>"

definition node2 :: node where
  "node2 = \<lparr>name = ''Node 2'', url = ''http://node2.blockchain.net/sync''\<rparr>"

definition node3 :: node where
  "node3 = \<lparr>name = ''Node 3'', url = ''http://node3.blockchain.net/sync''\<rparr>"

definition CONFIG :: config where
  "CONFIG = \<lparr>
     nodes = [node1, node2, node3],
     syncInterval = 60000,
     dataDirectory = ''./data'',
     hashAlgorithm = ''sha256'',
     conflictResolution = ''latest-timestamp''\<rparr>"

text \<open>
  The built-ins of Node.js the module calls and does not define. They are parameters of
  the model, so a theorem that holds for every \<open>host\<close> holds for the engine the module
  runs on.
  \<^item> \<open>JSON_parse\<close>: \<^verbatim>\<open>JSON.parse(text)\<close>, a value or a thrown error;
  \<^item> \<open>JSON_stringify\<close>: \<^verbatim>\<open>JSON.stringify(value, null, 2)\<close>;
  \<^item> \<open>Date_parse\<close>: \<^verbatim>\<open>Date.parse(string)\<close>, a time value in milliseconds or \<open>None\<close> for NaN;
  \<^item> \<open>ToPrimitive\<close>: the conversion of an array or an object to a primitive, which for
    a parsed document is a string or a thrown error;
  \<^item> \<open>createHash\<close>: \<^verbatim>\<open>crypto.createHash(algorithm).update(data).digest("hex")\<close>, which
    throws for an algorithm the build does not know;
  \<^item> \<open>path_join\<close>: \<^verbatim>\<open>path.join(directory, fileName)\<close>.
\<close>

record host =
  JSON_parse :: "jsstring \<Rightarrow> error + json"
  JSON_stringify :: "json \<Rightarrow> jsstring"
  Date_parse :: "string \<Rightarrow> int option"
  ToPrimitive :: "json \<Rightarrow> error + string"
  createHash :: "string \<Rightarrow> jsstring \<Rightarrow> error + string"
  path_join :: "string \<Rightarrow> string \<Rightarrow> string"

text \<open>
  One line of console output. Each constructor is one \<^verbatim>\<open>console.log\<close> or
  \<^verbatim>\<open>console.error\<close> call of the module:
  \<^item> \<open>Starting\<close>: \<^verbatim>\<open>"Starting data synchronization..."\<close>
  \<^item> \<open>Fetched n\<close>: \<^verbatim>\<open>`Fetched data from ${n}`\<close>
  \<^item> \<open>FetchError n e\<close>: \<^verbatim>\<open>`Error fetching data from ${n}:`, e.message\<close>
  \<^item> \<open>Saved p\<close>: \<^verbatim>\<open>`Data saved to: ${p}`\<close>
  \<^item> \<open>Synchronized n\<close>: \<^verbatim>\<open>`Data synchronized for ${n}`\<close>
  \<^item> \<open>SyncError n e\<close>: \<^verbatim>\<open>`Error synchronizing data for ${n}:`, e.message\<close>
  \<^item> \<open>Complete\<close>: \<^verbatim>\<open>"Data synchronization complete."\<close>
  \<^item> \<open>Verified f\<close>: \<^verbatim>\<open>`Integrity verified for ${f}`\<close>
  \<^item> \<open>CheckFailed f\<close>: \<^verbatim>\<open>`Integrity check failed for ${f}`\<close>
\<close>

datatype line =
    Starting
  | Fetched string
  | FetchError string error
  | Saved string
  | Synchronized string
  | SyncError string error
  | Complete
  | Verified string
  | CheckFailed string

text \<open>
  What is at a path: a regular file with its bytes, or something that exists and cannot
  be read (a directory, a file without permission), with the error the read throws.
\<close>

datatype dirent = Regular bytes | Unreadable error

text \<open>
  The world outside the process: the file system, which paths refuse a write (and with
  which error), what the network answers to the n-th request when it is a GET of a given
  URL (\<^verbatim>\<open>response.data\<close>, or the error the client throws), the requests issued so far and
  the console.
\<close>

record world =
  fs :: "string \<Rightarrow> dirent option"
  write_error :: "string \<Rightarrow> error option"
  respond :: "nat \<Rightarrow> string \<Rightarrow> error + json"
  requests :: "string list"
  console :: "line list"

definition emit :: "line \<Rightarrow> world \<Rightarrow> world" where
  "emit l w = w\<lparr>console := console w @ [l]\<rparr>"

section \<open>Utility functions\<close>

text \<open>
  \<^verbatim>\<open>function hashData(data) {
    return crypto.createHash(CONFIG.hashAlgorithm).update(data).digest("hex"); }\<close>
\<close>

definition hashData :: "config \<Rightarrow> host \<Rightarrow> jsstring \<Rightarrow> error + string" where
  "hashData cfg h data = createHash h (hashAlgorithm cfg) data"

text \<open>
  \<^verbatim>\<open>function saveDataToFile(fileName, data) {
    const filePath = path.join(CONFIG.dataDirectory, fileName);
    fs.writeFileSync(filePath, data);
    console.log(`Data saved to: ${filePath}`); }\<close>
\<close>

definition saveDataToFile ::
  "config \<Rightarrow> host \<Rightarrow> string \<Rightarrow> payload \<Rightarrow> world \<Rightarrow> (error + unit) \<times> world" where
  "saveDataToFile cfg h fileName data w =
     (let filePath = path_join h (dataDirectory cfg) fileName in
      case write_error w filePath of
        Some e \<Rightarrow> (Inl e, w)
      | None \<Rightarrow>
          (Inr (), emit (Saved filePath) (w\<lparr>fs := (fs w)(filePath \<mapsto> Regular (written data))\<rparr>)))"

text \<open>
  \<^verbatim>\<open>function loadDataFromFile(fileName) {
    const filePath = path.join(CONFIG.dataDirectory, fileName);
    if (fs.existsSync(filePath)) { return fs.readFileSync(filePath, "utf-8"); }
    else { throw new Error(`File not found: ${fileName}`); } }\<close>
\<close>

definition loadDataFromFile :: "config \<Rightarrow> host \<Rightarrow> string \<Rightarrow> world \<Rightarrow> error + jsstring" where
  "loadDataFromFile cfg h fileName w =
     (let filePath = path_join h (dataDirectory cfg) fileName in
      case fs w filePath of
        Some (Regular content) \<Rightarrow> Inr (utf8_decode content)
      | Some (Unreadable e) \<Rightarrow> Inl e
      | None \<Rightarrow> Inl (Error (''File not found: '' @ fileName)))"

section \<open>Fetching from a node\<close>

text \<open>
  \<^verbatim>\<open>async fetchData() {
    try { const response = await axios.get(this.node.url);
          console.log(`Fetched data from ${this.node.name}`);
          return response.data; }
    catch (error) { console.error(`Error fetching data from ${this.node.name}:`, error.message);
                    throw error; } }\<close>
\<close>

definition fetchData :: "node \<Rightarrow> world \<Rightarrow> (error + json) \<times> world" where
  "fetchData nd w =
     (let w1 = w\<lparr>requests := requests w @ [url nd]\<rparr> in
      case respond w (length (requests w)) (url nd) of
        Inr data \<Rightarrow> (Inr data, emit (Fetched (name nd)) w1)
      | Inl e \<Rightarrow> (Inl e, emit (FetchError (name nd) e) w1))"

section \<open>Conflict resolution\<close>

text \<open>
  \<^verbatim>\<open>new Date(value)\<close>, read through \<^verbatim>\<open>valueOf()\<close>: a time value in milliseconds, or
  \<open>None\<close> for an invalid date (NaN). \<open>TimeClip\<close> is the clipping of ECMAScript: a number
  beyond 8.64e15 milliseconds is no date, and a fraction is cut off towards zero
  (\<open>whole_ms\<close>).
\<close>

definition whole_ms :: "rat \<Rightarrow> int" where
  "whole_ms r = (if 0 \<le> r then \<lfloor>r\<rfloor> else \<lceil>r\<rceil>)"

definition TimeClip :: "number \<Rightarrow> int option" where
  "TimeClip n =
     (case n of
        Finite r \<Rightarrow> if \<bar>r\<bar> \<le> 8640000000000000 then Some (whole_ms r) else None
      | PosInfinity \<Rightarrow> None
      | NegInfinity \<Rightarrow> None)"

definition clip_parsed :: "int option \<Rightarrow> int option" where
  "clip_parsed t = (case t of None \<Rightarrow> None | Some ms \<Rightarrow> TimeClip (Finite (of_int ms)))"

fun new_Date :: "host \<Rightarrow> json option \<Rightarrow> error + int option" where
  "new_Date h None = Inr None"
| "new_Date h (Some JNull) = Inr (Some 0)"
| "new_Date h (Some (JBool b)) = Inr (Some (if b then 1 else 0))"
| "new_Date h (Some (JNum n)) = Inr (TimeClip n)"
| "new_Date h (Some (JStr s)) = Inr (clip_parsed (Date_parse h s))"
| "new_Date h (Some (JArr xs)) =
     (case ToPrimitive h (JArr xs) of
        Inl e \<Rightarrow> Inl e
      | Inr s \<Rightarrow> Inr (clip_parsed (Date_parse h s)))"
| "new_Date h (Some (JObj props)) =
     (case ToPrimitive h (JObj props) of
        Inl e \<Rightarrow> Inl e
      | Inr s \<Rightarrow> Inr (clip_parsed (Date_parse h s)))"

text \<open>\<^verbatim>\<open>a > b\<close> on two dates: a comparison of numbers, false as soon as one is NaN.\<close>

fun date_gt :: "int option \<Rightarrow> int option \<Rightarrow> bool" where
  "date_gt (Some a) (Some b) = (a > b)"
| "date_gt _ _ = False"

text \<open>\<^verbatim>\<open>new Date(v.timestamp)\<close>, as the resolver builds it for both records.\<close>

definition timestampDate :: "host \<Rightarrow> json \<Rightarrow> error + int option" where
  "timestampDate h v =
     (case get_timestamp v of
        Inl e \<Rightarrow> Inl e
      | Inr t \<Rightarrow> new_Date h t)"

text \<open>
  \<^verbatim>\<open>function resolveConflict(localData, remoteData) {
    const localTimestamp = new Date(localData.timestamp);
    const remoteTimestamp = new Date(remoteData.timestamp);
    if (CONFIG.conflictResolution === "latest-timestamp") {
        return localTimestamp > remoteTimestamp ? localData : remoteData;
    } else { throw new Error("Unsupported conflict resolution strategy"); } }\<close>
\<close>

definition resolveConflict :: "config \<Rightarrow> host \<Rightarrow> json \<Rightarrow> json \<Rightarrow> error + json" where
  "resolveConflict cfg h localData remoteData =
     (case timestampDate h localData of
        Inl e \<Rightarrow> Inl e
      | Inr localTimestamp \<Rightarrow>
         (case timestampDate h remoteData of
            Inl e \<Rightarrow> Inl e
          | Inr remoteTimestamp \<Rightarrow>
              if conflictResolution cfg = ''latest-timestamp''
              then Inr (if date_gt localTimestamp remoteTimestamp
                        then localData else remoteData)
              else Inl (Error ''Unsupported conflict resolution strategy'')))"

section \<open>Data synchronization\<close>

text \<open>
  \<^verbatim>\<open>nodeConfig.name.replace(/\s+/g, "_")\<close>: every maximal run of white space becomes one
  underscore. White space is what \<^verbatim>\<open>\s\<close> matches: tab, line feed, vertical tab, form
  feed, carriage return, space, and in UTF-8 the no-break space (C2 A0), U+1680,
  U+2000 to U+200A, U+2028, U+2029, U+202F, U+205F, U+3000 and U+FEFF.
  \<open>space_width\<close> is the number of bytes of the white space character a string starts
  with, 0 when it starts with none.
\<close>

definition space3 :: "nat \<Rightarrow> nat \<Rightarrow> nat \<Rightarrow> bool" where
  "space3 a b c =
     (a = 0xE1 \<and> b = 0x9A \<and> c = 0x80
      \<or> a = 0xE2 \<and> b = 0x80 \<and> (0x80 \<le> c \<and> c \<le> 0x8A \<or> c = 0xA8 \<or> c = 0xA9 \<or> c = 0xAF)
      \<or> a = 0xE2 \<and> b = 0x81 \<and> c = 0x9F
      \<or> a = 0xE3 \<and> b = 0x80 \<and> c = 0x80
      \<or> a = 0xEF \<and> b = 0xBB \<and> c = 0xBF)"

fun space_width :: "string \<Rightarrow> nat" where
  "space_width [] = 0"
| "space_width [a] = (if (9 \<le> (of_char a :: nat) \<and> (of_char a :: nat) \<le> 13) \<or> a = CHR '' '' then 1 else 0)"
| "space_width [a, b] =
     (if (9 \<le> (of_char a :: nat) \<and> (of_char a :: nat) \<le> 13) \<or> a = CHR '' '' then 1
      else if (of_char a :: nat) = 0xC2 \<and> (of_char b :: nat) = 0xA0 then 2 else 0)"
| "space_width (a # b # c # _) =
     (if (9 \<le> (of_char a :: nat) \<and> (of_char a :: nat) \<le> 13) \<or> a = CHR '' '' then 1
      else if (of_char a :: nat) = 0xC2 \<and> (of_char b :: nat) = 0xA0 then 2
      else if space3 (of_char a) (of_char b) (of_char c) then 3 else 0)"

text \<open>
  \<open>replace_spaces skip run s\<close> walks the string byte by byte: \<open>skip\<close> counts the bytes
  of the current white space character still to drop, \<open>run\<close> says that the run this
  position continues has its underscore already.
\<close>

fun replace_spaces :: "nat \<Rightarrow> bool \<Rightarrow> string \<Rightarrow> string" where
  "replace_spaces _ _ [] = []"
| "replace_spaces (Suc k) run (c # s) = replace_spaces k run s"
| "replace_spaces 0 run (c # s) =
     (if space_width (c # s) = 0 then c # replace_spaces 0 False s
      else (if run then [] else ''_'') @ replace_spaces (space_width (c # s) - 1) True s)"

text \<open>
  \<^verbatim>\<open>const localFileName = `${nodeConfig.name.replace(/\s+/g, "_")}_data.json`;\<close>
\<close>

definition localFileName :: "node \<Rightarrow> string" where
  "localFileName nodeConfig = replace_spaces 0 False (name nodeConfig) @ ''_data.json''"

definition localPath :: "config \<Rightarrow> host \<Rightarrow> node \<Rightarrow> string" where
  "localPath cfg h nodeConfig = path_join h (dataDirectory cfg) (localFileName nodeConfig)"

text \<open>
  \<^verbatim>\<open>const localData = fs.existsSync(path.join(CONFIG.dataDirectory, localFileName))
        ? JSON.parse(loadDataFromFile(localFileName)) : null;\<close>
\<close>

definition loadLocal :: "config \<Rightarrow> host \<Rightarrow> node \<Rightarrow> world \<Rightarrow> error + json" where
  "loadLocal cfg h nodeConfig w =
     (if fs w (path_join h (dataDirectory cfg) (localFileName nodeConfig)) \<noteq> None
      then (case loadDataFromFile cfg h (localFileName nodeConfig) w of
              Inl e \<Rightarrow> Inl e
            | Inr content \<Rightarrow> JSON_parse h content)
      else Inr JNull)"

text \<open>
  The body of the \<^verbatim>\<open>try\<close> block of \<^verbatim>\<open>synchronizeData\<close> for one node: it ends
  normally (\<open>Inr ()\<close>) or with the error thrown, and in both cases leaves the world as
  changed so far.
  \<^verbatim>\<open>const remoteData = await node.fetchData();
  const localFileName = ...; const localData = ...;
  if (localData) {
      const resolvedData = resolveConflict(localData, remoteData);
      saveDataToFile(localFileName, JSON.stringify(resolvedData, null, 2));
  } else {
      saveDataToFile(localFileName, JSON.stringify(remoteData, null, 2));
  }
  console.log(`Data synchronized for ${nodeConfig.name}`);\<close>
\<close>

definition tryNode :: "config \<Rightarrow> host \<Rightarrow> node \<Rightarrow> world \<Rightarrow> (error + unit) \<times> world" where
  "tryNode cfg h nodeConfig w =
     (case fetchData nodeConfig w of
        (Inl e, w1) \<Rightarrow> (Inl e, w1)
      | (Inr remoteData, w1) \<Rightarrow>
         (case loadLocal cfg h nodeConfig w1 of
            Inl e \<Rightarrow> (Inl e, w1)
          | Inr localData \<Rightarrow>
             (case (if truthy localData
                    then (case resolveConflict cfg h localData remoteData of
                            Inl e \<Rightarrow> (Inl e, w1)
                          | Inr resolvedData \<Rightarrow>
                              saveDataToFile cfg h (localFileName nodeConfig)
                                (Text (JSON_stringify h resolvedData)) w1)
                    else saveDataToFile cfg h (localFileName nodeConfig)
                           (Text (JSON_stringify h remoteData)) w1) of
                (Inl e, w2) \<Rightarrow> (Inl e, w2)
              | (Inr _, w2) \<Rightarrow> (Inr (), emit (Synchronized (name nodeConfig)) w2))))"

text \<open>
  One turn of the loop: the \<^verbatim>\<open>try\<close> block and its handler
  \<^verbatim>\<open>catch (error) { console.error(`Error synchronizing data for ${nodeConfig.name}:`,
  error.message); }\<close>
\<close>

definition syncNode :: "config \<Rightarrow> host \<Rightarrow> world \<Rightarrow> node \<Rightarrow> world" where
  "syncNode cfg h w nodeConfig =
     (case tryNode cfg h nodeConfig w of
        (Inl e, w') \<Rightarrow> emit (SyncError (name nodeConfig) e) w'
      | (Inr _, w') \<Rightarrow> w')"

text \<open>
  \<^verbatim>\<open>async function synchronizeData() {
    console.log("Starting data synchronization...");
    for (const nodeConfig of CONFIG.nodes) { ... }
    console.log("Data synchronization complete."); }\<close>
\<close>

definition synchronizeData :: "config \<Rightarrow> host \<Rightarrow> world \<Rightarrow> world" where
  "synchronizeData cfg h w =
     emit Complete (foldl (syncNode cfg h) (emit Starting w) (nodes cfg))"

section \<open>Verification\<close>

text \<open>
  \<^verbatim>\<open>verifyIntegrity(expectedHash) {
    const data = loadDataFromFile(this.fileName);
    const calculatedHash = hashData(data);
    if (calculatedHash === expectedHash) {
        console.log(`Integrity verified for ${this.fileName}`); return true;
    } else {
        console.error(`Integrity check failed for ${this.fileName}`); return false; } }\<close>
\<close>

definition verifyIntegrity ::
  "config \<Rightarrow> host \<Rightarrow> string \<Rightarrow> string \<Rightarrow> world \<Rightarrow> (error + bool) \<times> world" where
  "verifyIntegrity cfg h fileName expectedHash w =
     (case loadDataFromFile cfg h fileName w of
        Inl e \<Rightarrow> (Inl e, w)
      | Inr data \<Rightarrow>
         (case hashData cfg h data of
            Inl e \<Rightarrow> (Inl e, w)
          | Inr calculatedHash \<Rightarrow>
              if calculatedHash = expectedHash
              then (Inr True, emit (Verified fileName) w)
              else (Inr False, emit (CheckFailed fileName) w)))"

section \<open>Outcomes\<close>

text \<open>
  The module returns no report: what a cycle tells about a node is the last line it
  prints for it, \<open>Synchronized\<close> or \<open>SyncError\<close>. \<open>outcomes\<close> reads these lines off
  the console, as pairs of the node's name and the error, if any.
\<close>

fun outcome :: "line \<Rightarrow> (string \<times> error option) option" where
  "outcome (Synchronized n) = Some (n, None)"
| "outcome (SyncError n e) = Some (n, Some e)"
| "outcome _ = None"

definition outcomes :: "line list \<Rightarrow> (string \<times> error option) list" where
  "outcomes ls = List.map_filter outcome ls"

text \<open>The error a result carries, if any.\<close>

definition failure :: "error + 'a \<Rightarrow> error option" where
  "failure r = (case r of Inl e \<Rightarrow> Some e | Inr _ \<Rightarrow> None)"

text \<open>
  Two worlds look the same to the turn of a node whose file is at \<open>p\<close>: same network,
  same number of requests issued, same entry and same write permission at \<open>p\<close>.
\<close>

definition same_view :: "string \<Rightarrow> world \<Rightarrow> world \<Rightarrow> bool" where
  "same_view p w w' =
     (respond w = respond w' \<and> length (requests w) = length (requests w') \<and>
      fs w p = fs w' p \<and> write_error w p = write_error w' p)"

text \<open>
  The turn of a node run by itself on the initial world, once its predecessors have
  issued their requests.
\<close>

definition alone :: "config \<Rightarrow> host \<Rightarrow> world \<Rightarrow> node list \<Rightarrow> node \<Rightarrow> (error + unit) \<times> world" where
  "alone cfg h w before nd = tryNode cfg h nd (w\<lparr>requests := requests w @ map url before\<rparr>)"

section \<open>Scenarios\<close>

text \<open>
  The documents of the scenarios: a remote record with timestamp 100, a local record
  with timestamp 200, the text of each as \<^verbatim>\<open>JSON.stringify(v, null, 2)\<close> writes it, the
  local record on one line, and a response body that is no JSON document. The texts are
  ASCII, so a text, as code units, and its UTF-8 bytes are the same numbers.
\<close>

definition remote100 :: json where
  "remote100 = JObj [(''timestamp'', JNum (Finite 100)), (''value'', JStr ''x'')]"

definition local200 :: json where
  "local200 = JObj [(''timestamp'', JNum (Finite 200)), (''value'', JStr ''y'')]"

definition pretty100 :: jsstring where
  "pretty100 = map of_char ''{\<newline>  \"timestamp\": 100,\<newline>  \"value\": \"x\"\<newline>}''"

definition pretty200 :: jsstring where
  "pretty200 = map of_char ''{\<newline>  \"timestamp\": 200,\<newline>  \"value\": \"y\"\<newline>}''"

definition compact200 :: jsstring where
  "compact200 = map of_char ''{\"timestamp\": 200, \"value\": \"y\"}''"

definition quoted_pong :: jsstring where
  "quoted_pong = map of_char ''\"pong\"''"

definition pong :: json where
  "pong = JStr ''pong''"

text \<open>
  A host for the scenarios. It answers as Node.js does on the calls the scenarios make:
  the documents above are parsed and written as tabulated, the SHA-256 digests of the two
  written texts are the tabulated ones, and \<^verbatim>\<open>path.join("./data", name)\<close> of a plain
  file name is \<^verbatim>\<open>data/name\<close>. No scenario has a timestamp that is a string, an array
  or an object. Outside the tables its answers are placeholders.
\<close>

definition scenario_host :: host where
  "scenario_host = \<lparr>
     JSON_parse = (\<lambda>s. case map_of [(compact200, local200), (pretty200, local200),
                                        (pretty100, remote100)] s of
                          Some v \<Rightarrow> Inr v
                        | None \<Rightarrow> Inl SyntaxError),
     JSON_stringify = (\<lambda>v. case map_of [(remote100, pretty100), (local200, pretty200),
                                            (pong, quoted_pong)] v of
                              Some s \<Rightarrow> s
                            | None \<Rightarrow> []),
     Date_parse = (\<lambda>s. None),
     ToPrimitive = (\<lambda>v. Inr ''[object Object]''),
     createHash = (\<lambda>algorithm data.
        if algorithm = ''sha256'' \<and> data = pretty100
        then Inr ''7047f0031681175bb48577e409e8e48d41bf6502b7c390e24510bf04454c209c''
        else if algorithm = ''sha256'' \<and> data = pretty200
        then Inr ''e6fc529ee921fc0b0576d662430743dc716d6113cb39bcb8d4ba87bd1f0b1c0e''
        else Inl (Error ''Digest method not supported'')),
     path_join = (\<lambda>directory fileName.
        (if take 2 directory = ''./'' then drop 2 directory else directory) @ ''/'' @ fileName)\<rparr>"

text \<open>
  A world with the given files and network, where every write succeeds, before any
  request and any output.
\<close>

definition fresh :: "(string \<Rightarrow> dirent option) \<Rightarrow> (nat \<Rightarrow> string \<Rightarrow> error + json) \<Rightarrow> world" where
  "fresh files net =
     \<lparr>fs = files, write_error = (\<lambda>p. None), respond = net, requests = [], console = []\<rparr>"

text \<open>Every node answers with the remote record.\<close>

definition all_up :: "nat \<Rightarrow> string \<Rightarrow> error + json" where
  "all_up n u = Inr remote100"

text \<open>Node 2 refuses the connection, the others answer with the remote record.\<close>

definition node2_down :: "nat \<Rightarrow> string \<Rightarrow> error + json" where
  "node2_down n u =
     (if u = ''http://node2.blockchain.net/sync''
      then Inl (AxiosError ''connect ECONNREFUSED'')
      else Inr remote100)"

text \<open>Every node answers with a body that is no JSON document.\<close>

definition all_pong :: "nat \<Rightarrow> string \<Rightarrow> error + json" where
  "all_pong n u = Inr pong"

text \<open>The configuration with a conflict-resolution policy the resolver does not know.\<close>

definition CONFIG_merge :: config where
  "CONFIG_merge = CONFIG\<lparr>conflictResolution := ''merge''\<rparr>"




text \<open>The data directory with one file, the one of Node 1.\<close>

definition node1_file :: "bytes \<Rightarrow> string \<Rightarrow> dirent option" where
  "node1_file content = Map.empty(''data/Node_1_data.json'' \<mapsto> Regular content)"

section \<open>Lemmas on the codec\<close>

lemmas utf8_defs =
  high_surrogate_def low_surrogate_def encode_point_def cont_def second3_def second4_def units_def









section \<open>Lemmas on one turn of the loop\<close>

lemmas model_defs =
  synchronizeData_def syncNode_def tryNode_def fetchData_def loadLocal_def loadDataFromFile_def
  saveDataToFile_def localFileName_def localPath_def resolveConflict_def timestampDate_def
  TimeClip_def whole_ms_def clip_parsed_def verifyIntegrity_def hashData_def emit_def alone_def
  failure_def space3_def Let_def utf8_defs

lemmas scenario_defs =
  CONFIG_def CONFIG_merge_def node1_def node2_def node3_def scenario_host_def fresh_def
  all_up_def node2_down_def all_pong_def node1_file_def
  remote100_def local200_def pretty100_def pretty200_def compact200_def quoted_pong_def pong_def

lemmas turn_defs =
  alone_def tryNode_def fetchData_def loadLocal_def loadDataFromFile_def saveDataToFile_def
  localPath_def emit_def failure_def Let_def

lemma outcomes_append [simp]: "outcomes (xs @ ys) = outcomes xs @ outcomes ys"
  by (simp add: outcomes_def map_filter_def)

lemma outcomes_Nil [simp]: "outcomes [] = []"
  by (simp add: outcomes_def map_filter_def)

lemma outcomes_Cons [simp]:
  "outcomes (l # ls) = (case outcome l of None \<Rightarrow> outcomes ls | Some x \<Rightarrow> x # outcomes ls)"
  by (simp add: outcomes_def map_filter_def split: option.splits)

text \<open>A turn issues exactly one request and leaves the network and the permissions alone.\<close>

lemma tryNode_requests: "requests (snd (tryNode cfg h nd w)) = requests w @ [url nd]"
  by (simp add: tryNode_def fetchData_def saveDataToFile_def Let_def emit_def
       split: prod.splits sum.splits option.splits)

lemma tryNode_env:
  "write_error (snd (tryNode cfg h nd w)) = write_error w \<and>
   respond (snd (tryNode cfg h nd w)) = respond w"
  by (simp add: tryNode_def fetchData_def saveDataToFile_def Let_def emit_def
       split: prod.splits sum.splits option.splits)

text \<open>A turn writes to no file but the node's own.\<close>

lemma tryNode_frame:
  "p \<noteq> localPath cfg h nd \<Longrightarrow> fs (snd (tryNode cfg h nd w)) p = fs w p"
  by (simp add: tryNode_def localPath_def fetchData_def saveDataToFile_def Let_def emit_def
       split: prod.splits sum.splits option.splits)

lemma tryNode_outcomes:
  "outcomes (console (snd (tryNode cfg h nd w))) =
     outcomes (console w) @
     (case fst (tryNode cfg h nd w) of Inl e \<Rightarrow> [] | Inr _ \<Rightarrow> [(name nd, None)])"
  by (simp add: tryNode_def localPath_def fetchData_def saveDataToFile_def Let_def emit_def
       split: prod.splits sum.splits option.splits)

lemma tryNode_console: "\<exists>ls. console (snd (tryNode cfg h nd w)) = console w @ ls"
  by (simp add: tryNode_def fetchData_def saveDataToFile_def Let_def emit_def
       split: prod.splits sum.splits option.splits)

text \<open>What a turn does to its own file and how it ends depend on the node's view only.\<close>

lemma tryNode_local:
  "same_view (localPath cfg h nd) w w' \<Longrightarrow>
     fst (tryNode cfg h nd w) = fst (tryNode cfg h nd w') \<and>
     fs (snd (tryNode cfg h nd w)) (localPath cfg h nd) =
       fs (snd (tryNode cfg h nd w')) (localPath cfg h nd)"
  by (simp add: same_view_def tryNode_def localPath_def fetchData_def saveDataToFile_def
        loadLocal_def loadDataFromFile_def Let_def emit_def
       split: prod.splits sum.splits option.splits)

lemma loadLocal_fs: "fs w' = fs w \<Longrightarrow> loadLocal cfg h nd w' = loadLocal cfg h nd w"
  by (simp add: loadLocal_def loadDataFromFile_def)

lemma syncNode_requests: "requests (syncNode cfg h w nd) = requests w @ [url nd]"
  using tryNode_requests [of cfg h nd w]
  by (cases "tryNode cfg h nd w") (auto simp: syncNode_def emit_def split: sum.splits)

lemma syncNode_env:
  "write_error (syncNode cfg h w nd) = write_error w \<and>
   respond (syncNode cfg h w nd) = respond w"
  using tryNode_env [of cfg h nd w]
  by (cases "tryNode cfg h nd w") (auto simp: syncNode_def emit_def split: sum.splits)

lemma syncNode_fs: "fs (syncNode cfg h w nd) = fs (snd (tryNode cfg h nd w))"
  by (cases "tryNode cfg h nd w") (auto simp: syncNode_def emit_def split: sum.splits)

lemma syncNode_outcomes:
  "outcomes (console (syncNode cfg h w nd)) =
     outcomes (console w) @ [(name nd, failure (fst (tryNode cfg h nd w)))]"
  using tryNode_outcomes [of cfg h nd w]
  by (cases "tryNode cfg h nd w")
     (auto simp: syncNode_def emit_def failure_def split: sum.splits)

lemma syncNode_console: "\<exists>ls. console (syncNode cfg h w nd) = console w @ ls"
  using tryNode_console [of cfg h nd w]
  by (cases "tryNode cfg h nd w") (auto simp: syncNode_def emit_def split: sum.splits)

section \<open>Lemmas on the loop\<close>

lemma run_requests: "requests (foldl (syncNode cfg h) w ns) = requests w @ map url ns"
  by (induction ns arbitrary: w) (simp_all add: syncNode_requests)

lemma run_env:
  "write_error (foldl (syncNode cfg h) w ns) = write_error w \<and>
   respond (foldl (syncNode cfg h) w ns) = respond w"
  by (induction ns arbitrary: w) (simp_all add: syncNode_env)

lemma run_frame:
  "p \<notin> localPath cfg h ` set ns \<Longrightarrow> fs (foldl (syncNode cfg h) w ns) p = fs w p"
  by (induction ns arbitrary: w) (simp_all add: syncNode_fs tryNode_frame)

lemma run_console: "\<exists>ls. console (foldl (syncNode cfg h) w ns) = console w @ ls"
proof (induction ns arbitrary: w)
  case Nil
  then show ?case by simp
next
  case (Cons nd ns)
  obtain l1 where l1: "console (syncNode cfg h w nd) = console w @ l1"
    using syncNode_console by blast
  obtain l2 where
    "console (foldl (syncNode cfg h) (syncNode cfg h w nd) ns) = console (syncNode cfg h w nd) @ l2"
    using Cons.IH by blast
  then show ?case using l1 by simp
qed

text \<open>The outcomes of a run, node by node: induction from the right end of the list.\<close>

lemma run_outcomes:
  "outcomes (console (foldl (syncNode cfg h) w ns)) =
     outcomes (console w) @
     map (\<lambda>i. (name (ns ! i),
            failure (fst (tryNode cfg h (ns ! i) (foldl (syncNode cfg h) w (take i ns))))))
       [0..<length ns]"
proof (induction ns rule: rev_induct)
  case Nil
  then show ?case by simp
next
  case (snoc nd ns)
  have "map (\<lambda>i. (name ((ns @ [nd]) ! i),
               failure (fst (tryNode cfg h ((ns @ [nd]) ! i)
                 (foldl (syncNode cfg h) w (take i (ns @ [nd]))))))) [0..<length ns] =
        map (\<lambda>i. (name (ns ! i),
               failure (fst (tryNode cfg h (ns ! i) (foldl (syncNode cfg h) w (take i ns))))))
          [0..<length ns]"
    by (simp add: nth_append)
  then show ?case using snoc by (simp add: syncNode_outcomes)
qed

text \<open>
  When its turn comes, a node whose file no predecessor shares sees the world as if it
  ran alone.
\<close>

lemma view_at_turn:
  assumes "p \<notin> localPath cfg h ` set before"
  shows "same_view p (foldl (syncNode cfg h) (emit Starting w) before)
           (w\<lparr>requests := requests w @ map url before\<rparr>)"
  using assms by (simp add: same_view_def run_requests run_env run_frame emit_def)

lemma cycle_requests: "requests (synchronizeData cfg h w) = requests w @ map url (nodes cfg)"
  by (simp add: synchronizeData_def run_requests emit_def)

lemma cycle_node_fs:
  assumes "nodes cfg = before @ nd # after"
    and "distinct (map (localPath cfg h) (nodes cfg))"
  shows "fs (synchronizeData cfg h w) (localPath cfg h nd) =
         fs (snd (alone cfg h w before nd)) (localPath cfg h nd)"
proof -
  let ?p = "localPath cfg h nd" and ?w1 = "emit Starting w"
  have a: "?p \<notin> localPath cfg h ` set after" and b: "?p \<notin> localPath cfg h ` set before"
    using assms by auto
  have "fs (synchronizeData cfg h w) ?p =
        fs (foldl (syncNode cfg h) ?w1 (before @ nd # after)) ?p"
    using assms(1) by (simp add: synchronizeData_def emit_def)
  also have "\<dots> = fs (syncNode cfg h (foldl (syncNode cfg h) ?w1 before) nd) ?p"
    using a by (simp add: run_frame)
  also have "\<dots> = fs (snd (tryNode cfg h nd (foldl (syncNode cfg h) ?w1 before))) ?p"
    by (simp add: syncNode_fs)
  also have "\<dots> = fs (snd (alone cfg h w before nd)) ?p"
    using tryNode_local [OF view_at_turn [OF b]] by (simp add: alone_def)
  finally show ?thesis .
qed

lemma cycle_node_outcome:
  assumes "nodes cfg = before @ nd # after"
    and "distinct (map (localPath cfg h) (nodes cfg))"
  shows "outcomes (console (synchronizeData cfg h w)) !
           (length (outcomes (console w)) + length before) =
         (name nd, failure (fst (alone cfg h w before nd)))"
proof -
  let ?p = "localPath cfg h nd" and ?w1 = "emit Starting w" and ?ns = "nodes cfg"
  let ?F = "\<lambda>i. (name (?ns ! i),
              failure (fst (tryNode cfg h (?ns ! i) (foldl (syncNode cfg h) ?w1 (take i ?ns)))))"
  have b: "?p \<notin> localPath cfg h ` set before"
    using assms by auto
  have len: "length before < length ?ns"
    using assms(1) by simp
  have "outcomes (console (synchronizeData cfg h w)) =
        outcomes (console w) @ map ?F [0..<length ?ns]"
    using run_outcomes [of cfg h ?w1 ?ns] by (simp add: synchronizeData_def emit_def)
  then have "outcomes (console (synchronizeData cfg h w)) !
               (length (outcomes (console w)) + length before) = ?F (length before)"
    using len by (simp add: nth_append)
  also have "\<dots> = (name nd, failure (fst (tryNode cfg h nd (foldl (syncNode cfg h) ?w1 before))))"
    using assms(1) by simp
  also have "\<dots> = (name nd, failure (fst (alone cfg h w before nd)))"
    using tryNode_local [OF view_at_turn [OF b]] by (simp add: alone_def)
  finally show ?thesis .
qed

section \<open>Lemmas on the scenarios\<close>

lemma scenario_nodes:
  "nodes CONFIG = [] @ node1 # [node2, node3]"
  "nodes CONFIG = [node1] @ node2 # [node3]"
  "nodes CONFIG = [node1, node2] @ node3 # []"
  by (simp_all add: CONFIG_def)

lemma scenario_paths:
  "localPath CONFIG scenario_host node1 = ''data/Node_1_data.json''"
  "localPath CONFIG scenario_host node2 = ''data/Node_2_data.json''"
  "localPath CONFIG scenario_host node3 = ''data/Node_3_data.json''"
  by (simp_all add: localPath_def localFileName_def space3_def CONFIG_def node1_def node2_def
        node3_def scenario_host_def)

lemma scenario_distinct: "distinct (map (localPath CONFIG scenario_host) (nodes CONFIG))"
  by (simp add: scenario_nodes(2) scenario_paths)

lemma scenario_dates:
  "timestampDate scenario_host local200 = Inr (Some 200)"
  "timestampDate scenario_host remote100 = Inr (Some 100)"
  by (simp_all add: timestampDate_def local200_def remote100_def TimeClip_def whole_ms_def)


text \<open>The texts of the scenarios are ASCII: their bytes are their code units.\<close>

lemma scenario_texts:
  "utf8_encode pretty100 = pretty100" "utf8_decode pretty100 = pretty100"
  "utf8_encode pretty200 = pretty200" "utf8_decode pretty200 = pretty200"
  "utf8_decode compact200 = compact200" "utf8_encode quoted_pong = quoted_pong"
  by (simp_all add: pretty100_def pretty200_def compact200_def quoted_pong_def utf8_defs)


lemma scenario_names:
  "name node1 = ''Node 1''" "name node2 = ''Node 2''" "name node3 = ''Node 3''"
  by (simp_all add: node1_def node2_def node3_def)

section \<open>The claims\<close>

text \<open>
  C1 (failure isolation). Whatever fails in the turn of a node, be it the fetch, the load
  of the local record, the resolution or the write, the failure is caught in that turn
  and the cycle goes on: every configured node is requested, in the configured order, and
  every node gets its outcome line. Moreover, when no two nodes share a file, the cycle
  leaves in the file of a node what the turn of that node alone leaves there, and reports
  for the node the outcome its turn alone has, so that the failure of one node changes
  nothing for the others.
\<close>

theorem failure_isolation:
  assumes "nodes cfg = before @ nd # after"
  shows "requests (synchronizeData cfg h w) = requests w @ map url (nodes cfg) \<and>
         length (outcomes (console (synchronizeData cfg h w))) =
           length (outcomes (console w)) + length (nodes cfg) \<and>
         (distinct (map (localPath cfg h) (nodes cfg)) \<longrightarrow>
            fs (synchronizeData cfg h w) (localPath cfg h nd) =
              fs (snd (alone cfg h w before nd)) (localPath cfg h nd) \<and>
            outcomes (console (synchronizeData cfg h w)) !
                (length (outcomes (console w)) + length before) =
              (name nd, failure (fst (alone cfg h w before nd))))"
proof -
  have "outcomes (console (synchronizeData cfg h w)) =
        outcomes (console w) @
        map (\<lambda>i. (name (nodes cfg ! i),
               failure (fst (tryNode cfg h (nodes cfg ! i)
                 (foldl (syncNode cfg h) (emit Starting w) (take i (nodes cfg)))))))
          [0..<length (nodes cfg)]"
    using run_outcomes [of cfg h "emit Starting w" "nodes cfg"]
    by (simp add: synchronizeData_def emit_def)
  then have "length (outcomes (console (synchronizeData cfg h w))) =
             length (outcomes (console w)) + length (nodes cfg)"
    by simp
  then show ?thesis
    using cycle_requests [of cfg h w] cycle_node_fs [OF assms] cycle_node_outcome [OF assms]
    by simp
qed

text \<open>
  The cycle over Node 1, Node 2, Node 3 where only the fetch from Node 2 fails: all three
  are requested, Node 1 and Node 3 are written and reported as synchronized, Node 2 is
  reported with its error and has no file.
\<close>

theorem failure_isolation_witness:
  "nodes CONFIG = [node1] @ node2 # [node3] \<and>
   distinct (map (localPath CONFIG scenario_host) (nodes CONFIG)) \<and>
   requests (synchronizeData CONFIG scenario_host (fresh Map.empty node2_down)) =
     [url node1, url node2, url node3] \<and>
   fs (synchronizeData CONFIG scenario_host (fresh Map.empty node2_down))
       ''data/Node_1_data.json'' = Some (Regular pretty100) \<and>
   fs (synchronizeData CONFIG scenario_host (fresh Map.empty node2_down))
       ''data/Node_2_data.json'' = None \<and>
   fs (synchronizeData CONFIG scenario_host (fresh Map.empty node2_down))
       ''data/Node_3_data.json'' = Some (Regular pretty100) \<and>
   outcomes (console (synchronizeData CONFIG scenario_host (fresh Map.empty node2_down))) ! 0 =
     (''Node 1'', None) \<and>
   outcomes (console (synchronizeData CONFIG scenario_host (fresh Map.empty node2_down))) ! 1 =
     (''Node 2'', Some (AxiosError ''connect ECONNREFUSED'')) \<and>
   outcomes (console (synchronizeData CONFIG scenario_host (fresh Map.empty node2_down))) ! 2 =
     (''Node 3'', None)"
proof -
  let ?w = "fresh Map.empty node2_down"
  have t1: "fs (snd (alone CONFIG scenario_host ?w [] node1)) ''data/Node_1_data.json'' =
              Some (Regular pretty100) \<and>
            failure (fst (alone CONFIG scenario_host ?w [] node1)) = None"
    by (simp add: model_defs scenario_defs)
  have t2: "fs (snd (alone CONFIG scenario_host ?w [node1] node2)) ''data/Node_2_data.json'' = None \<and>
            failure (fst (alone CONFIG scenario_host ?w [node1] node2)) =
              Some (AxiosError ''connect ECONNREFUSED'')"
    by (simp add: model_defs scenario_defs)
  have t3: "fs (snd (alone CONFIG scenario_host ?w [node1, node2] node3)) ''data/Node_3_data.json'' =
              Some (Regular pretty100) \<and>
            failure (fst (alone CONFIG scenario_host ?w [node1, node2] node3)) = None"
    by (simp add: model_defs scenario_defs)
  have c: "console ?w = []" "requests ?w = []"
    by (simp_all add: fresh_def)
  show ?thesis
    using failure_isolation [OF scenario_nodes(1), of scenario_host ?w]
      failure_isolation [OF scenario_nodes(2), of scenario_host ?w]
      failure_isolation [OF scenario_nodes(3), of scenario_host ?w]
      t1 t2 t3 scenario_distinct
    by (simp add: scenario_paths c scenario_nodes(2) scenario_names numeral_2_eq_2)
qed

text \<open>
  C2 (unsupported policy), as the module has it. The policy name is compared inside
  \<open>resolveConflict\<close> and nowhere else. Under a name other than \<open>latest-timestamp\<close>, the
  turn of a node that has answered and has a truthy local record whose timestamps
  convert ends with the error "Unsupported conflict resolution strategy": the request
  has been issued by then and no file is written. The turn of a node that has answered
  and has no truthy local record ends normally and writes the remote record, serialised
  and encoded in UTF-8.
\<close>

theorem unsupported_policy_lazy:
  assumes "conflictResolution cfg \<noteq> ''latest-timestamp''"
    and "respond w (length (requests w)) (url nd) = Inr remoteData"
    and "loadLocal cfg h nd w = Inr localData"
  shows "(truthy localData \<and> timestampDate h localData = Inr ld \<and>
          timestampDate h remoteData = Inr rd \<longrightarrow>
            fst (tryNode cfg h nd w) = Inl (Error ''Unsupported conflict resolution strategy'') \<and>
            requests (snd (tryNode cfg h nd w)) = requests w @ [url nd] \<and>
            fs (snd (tryNode cfg h nd w)) = fs w) \<and>
         (\<not> truthy localData \<and> write_error w (localPath cfg h nd) = None \<longrightarrow>
            fst (tryNode cfg h nd w) = Inr () \<and>
            fs (snd (tryNode cfg h nd w)) (localPath cfg h nd) =
              Some (Regular (utf8_encode (JSON_stringify h remoteData))))"
proof -
  have "loadLocal cfg h nd (w\<lparr>requests := r, console := c\<rparr>) = Inr localData" for r c
    using assms(3) loadLocal_fs [of "w\<lparr>requests := r, console := c\<rparr>" w]
    by simp
  then show ?thesis
    using assms(1,2)
    by (simp add: tryNode_def fetchData_def saveDataToFile_def localPath_def emit_def Let_def
          resolveConflict_def)
qed

text \<open>
  Node 1 under the policy name \<open>merge\<close>, with the one-line local record on disk: its
  turn fails with the error after its request, and its file is as before.
\<close>

theorem unsupported_policy_lazy_witness:
  "conflictResolution CONFIG_merge \<noteq> ''latest-timestamp'' \<and>
   respond (fresh (node1_file compact200) all_up)
     (length (requests (fresh (node1_file compact200) all_up))) (url node1) = Inr remote100 \<and>
   loadLocal CONFIG_merge scenario_host node1 (fresh (node1_file compact200) all_up) = Inr local200 \<and>
   truthy local200 \<and>
   fst (tryNode CONFIG_merge scenario_host node1 (fresh (node1_file compact200) all_up)) =
     Inl (Error ''Unsupported conflict resolution strategy'') \<and>
   requests (snd (tryNode CONFIG_merge scenario_host node1 (fresh (node1_file compact200) all_up))) =
     [url node1] \<and>
   fs (snd (tryNode CONFIG_merge scenario_host node1 (fresh (node1_file compact200) all_up))) =
     node1_file compact200"
proof -
  let ?w = "fresh (node1_file compact200) all_up"
  have p: "conflictResolution CONFIG_merge \<noteq> ''latest-timestamp''"
    by (simp add: CONFIG_merge_def)
  have r: "respond ?w (length (requests ?w)) (url node1) = Inr remote100"
    by (simp add: fresh_def all_up_def)
  have l: "loadLocal CONFIG_merge scenario_host node1 ?w = Inr local200"
    by (simp add: model_defs scenario_defs)
  have t: "truthy local200"
    by (simp add: local200_def)
  have w: "requests ?w = []" "fs ?w = node1_file compact200"
    by (simp_all add: fresh_def)
  show ?thesis
    using p r l t w scenario_dates
      unsupported_policy_lazy [OF p r l, of "Some 200" "Some 100"]
    by simp
qed

text \<open>
  Against C2 as stated: with the policy name \<open>merge\<close> configured, the cycle starts and
  requests all three nodes. The error comes up inside the resolution for Node 1, after
  its fetch, is caught there, and Node 2 and Node 3, which have no local record, are
  written and reported as synchronized.
\<close>

theorem unsupported_policy_counterexample:
  "conflictResolution CONFIG_merge \<noteq> ''latest-timestamp'' \<and>
   requests (synchronizeData CONFIG_merge scenario_host (fresh (node1_file compact200) all_up)) =
     [url node1, url node2, url node3] \<and>
   console (synchronizeData CONFIG_merge scenario_host (fresh (node1_file compact200) all_up)) =
     [Starting,
      Fetched ''Node 1'',
      SyncError ''Node 1'' (Error ''Unsupported conflict resolution strategy''),
      Fetched ''Node 2'', Saved ''data/Node_2_data.json'', Synchronized ''Node 2'',
      Fetched ''Node 3'', Saved ''data/Node_3_data.json'', Synchronized ''Node 3'',
      Complete]"
  by (simp add: model_defs scenario_defs)




text \<open>
  C4 (no local record). When a node has answered with a remote record and no file exists
  under the node's key, the cycle writes that remote record, serialised (and encoded in
  UTF-8, as a string is written to a file), under the key and reports the node as
  synchronized, whatever the record and whatever the policy name.
  The node's file is shared with no other node and the write is not refused.
\<close>

theorem absent_local_remote_persisted:
  assumes "nodes cfg = before @ nd # after"
    and "distinct (map (localPath cfg h) (nodes cfg))"
    and "respond w (length (requests w) + length before) (url nd) = Inr remoteData"
    and "fs w (localPath cfg h nd) = None"
    and "write_error w (localPath cfg h nd) = None"
  shows "fs (synchronizeData cfg h w) (localPath cfg h nd) =
           Some (Regular (utf8_encode (JSON_stringify h remoteData))) \<and>
         outcomes (console (synchronizeData cfg h w)) !
             (length (outcomes (console w)) + length before) =
           (name nd, None)"
proof -
  have "fs (snd (alone cfg h w before nd)) (localPath cfg h nd) =
          Some (Regular (utf8_encode (JSON_stringify h remoteData))) \<and>
        fst (alone cfg h w before nd) = Inr ()"
    using assms(3-5) by (simp add: turn_defs)
  then show ?thesis
    using cycle_node_fs [OF assms(1,2)] cycle_node_outcome [OF assms(1,2)]
    by (simp add: failure_def)
qed

text \<open>Node 2 in a cycle that starts with the file of Node 1 only.\<close>

theorem absent_local_remote_persisted_witness:
  "nodes CONFIG = [node1] @ node2 # [node3] \<and>
   distinct (map (localPath CONFIG scenario_host) (nodes CONFIG)) \<and>
   respond (fresh (node1_file compact200) all_up)
     (length (requests (fresh (node1_file compact200) all_up)) + length [node1]) (url node2) =
     Inr remote100 \<and>
   fs (fresh (node1_file compact200) all_up) ''data/Node_2_data.json'' = None \<and>
   write_error (fresh (node1_file compact200) all_up) ''data/Node_2_data.json'' = None \<and>
   fs (synchronizeData CONFIG scenario_host (fresh (node1_file compact200) all_up))
       ''data/Node_2_data.json'' = Some (Regular pretty100) \<and>
   outcomes (console (synchronizeData CONFIG scenario_host (fresh (node1_file compact200) all_up))) ! 1 =
     (''Node 2'', None)"
proof -
  let ?w = "fresh (node1_file compact200) all_up"
  have r: "respond ?w (length (requests ?w) + length [node1]) (url node2) = Inr remote100"
    by (simp add: fresh_def all_up_def)
  have f: "fs ?w (localPath CONFIG scenario_host node2) = None"
    by (simp add: scenario_paths fresh_def node1_file_def)
  have e: "write_error ?w (localPath CONFIG scenario_host node2) = None"
    by (simp add: fresh_def)
  have c: "console ?w = []"
    by (simp add: fresh_def)
  have s: "JSON_stringify scenario_host remote100 = pretty100"
    by (simp add: scenario_host_def)
  show ?thesis
    using scenario_distinct r f e
      absent_local_remote_persisted [OF scenario_nodes(2) scenario_distinct r f e]
    by (simp add: scenario_paths scenario_nodes(2) scenario_names c s scenario_texts)
qed

text \<open>
  C5 (cycle report), as the module has it. A cycle returns nothing. It prints, after what
  was on the console, the line "Starting data synchronization...", then the lines of the
  nodes, then "Data synchronization complete."; among the lines of the nodes there is
  exactly one outcome line (synchronized, or error with its message) per configured node,
  in the configured order. No line carries an instant of time.
\<close>

theorem cycle_outcomes_in_order:
  "\<exists>mid. console (synchronizeData cfg h w) = console w @ [Starting] @ mid @ [Complete] \<and>
         map fst (outcomes mid) = map name (nodes cfg)"
proof -
  let ?w1 = "emit Starting w"
  obtain mid where mid: "console (foldl (syncNode cfg h) ?w1 (nodes cfg)) = console ?w1 @ mid"
    using run_console by blast
  have "outcomes (console ?w1 @ mid) =
        outcomes (console ?w1) @
        map (\<lambda>i. (name (nodes cfg ! i),
               failure (fst (tryNode cfg h (nodes cfg ! i)
                 (foldl (syncNode cfg h) ?w1 (take i (nodes cfg)))))))
          [0..<length (nodes cfg)]"
    using run_outcomes [of cfg h ?w1 "nodes cfg"] mid by simp
  then have "map fst (outcomes mid) = map (\<lambda>i. name (nodes cfg ! i)) [0..<length (nodes cfg)]"
    by (simp add: comp_def)
  also have "\<dots> = map name (nodes cfg)"
    by (rule nth_equalityI) simp_all
  finally have "map fst (outcomes mid) = map name (nodes cfg)" .
  moreover have "console (synchronizeData cfg h w) = console w @ [Starting] @ mid @ [Complete]"
    using mid by (simp add: synchronizeData_def emit_def)
  ultimately show ?thesis by blast
qed

text \<open>
  Against C5 as stated: all that the cycle over the three nodes, with Node 2 down, puts
  out. The first and the last line are the two fixed messages; there is no start instant,
  no end instant and no report beside these lines.
\<close>

theorem cycle_report_counterexample:
  "console (synchronizeData CONFIG scenario_host (fresh Map.empty node2_down)) =
     [Starting,
      Fetched ''Node 1'', Saved ''data/Node_1_data.json'', Synchronized ''Node 1'',
      FetchError ''Node 2'' (AxiosError ''connect ECONNREFUSED''),
      SyncError ''Node 2'' (AxiosError ''connect ECONNREFUSED''),
      Fetched ''Node 3'', Saved ''data/Node_3_data.json'', Synchronized ''Node 3'',
      Complete]"
  by (simp add: model_defs scenario_defs)










text \<open>
  C9 (payload that is no record), as the module has it. The module has no parse step for
  the fetched payload: a body that is no JSON document comes from the client as a string,
  and a string has no timestamp. The cycle then writes the string, serialised (and
  encoded in UTF-8, as a string is written to a file), under the node's key and reports the node as synchronized, when there is no truthy local record
  and also when there is one whose timestamp converts under the policy
  \<open>latest-timestamp\<close>.
\<close>

theorem raw_body_persisted:
  assumes "nodes cfg = before @ nd # after"
    and "distinct (map (localPath cfg h) (nodes cfg))"
    and "respond w (length (requests w) + length before) (url nd) = Inr (JStr body)"
    and "loadLocal cfg h nd w = Inr localData"
    and "truthy localData \<longrightarrow>
           conflictResolution cfg = ''latest-timestamp'' \<and>
           (\<exists>ld. timestampDate h localData = Inr ld)"
    and "write_error w (localPath cfg h nd) = None"
  shows "fs (synchronizeData cfg h w) (localPath cfg h nd) =
           Some (Regular (utf8_encode (JSON_stringify h (JStr body)))) \<and>
         outcomes (console (synchronizeData cfg h w)) !
             (length (outcomes (console w)) + length before) =
           (name nd, None)"
proof -
  have res: "truthy localData \<Longrightarrow> resolveConflict cfg h localData (JStr body) = Inr (JStr body)"
    using assms(5) by (auto simp: resolveConflict_def timestampDate_def)
  have "loadLocal cfg h nd (w\<lparr>requests := r, console := c\<rparr>) = Inr localData" for r c
    using assms(4) loadLocal_fs [of "w\<lparr>requests := r, console := c\<rparr>" w]
    by simp
  then have "fs (snd (alone cfg h w before nd)) (localPath cfg h nd) =
          Some (Regular (utf8_encode (JSON_stringify h (JStr body)))) \<and>
        fst (alone cfg h w before nd) = Inr ()"
    using assms(3,6) res
    by (simp add: alone_def tryNode_def fetchData_def saveDataToFile_def localPath_def
          emit_def Let_def)
  then show ?thesis
    using cycle_node_fs [OF assms(1,2)] cycle_node_outcome [OF assms(1,2)]
    by (simp add: failure_def)
qed

text \<open>
  Node 1 answers with the body \<open>pong\<close> while its local record of timestamp 200 is on
  disk: the string replaces the record.
\<close>

theorem raw_body_persisted_witness:
  "nodes CONFIG = [] @ node1 # [node2, node3] \<and>
   distinct (map (localPath CONFIG scenario_host) (nodes CONFIG)) \<and>
   respond (fresh (node1_file pretty200) all_pong)
     (length (requests (fresh (node1_file pretty200) all_pong)) + length ([] :: node list))
     (url node1) = Inr (JStr ''pong'') \<and>
   loadLocal CONFIG scenario_host node1 (fresh (node1_file pretty200) all_pong) = Inr local200 \<and>
   truthy local200 \<and>
   conflictResolution CONFIG = ''latest-timestamp'' \<and>
   timestampDate scenario_host local200 = Inr (Some 200) \<and>
   write_error (fresh (node1_file pretty200) all_pong) ''data/Node_1_data.json'' = None \<and>
   fs (synchronizeData CONFIG scenario_host (fresh (node1_file pretty200) all_pong))
       ''data/Node_1_data.json'' = Some (Regular quoted_pong) \<and>
   outcomes (console (synchronizeData CONFIG scenario_host (fresh (node1_file pretty200) all_pong))) ! 0 =
     (''Node 1'', None)"
proof -
  let ?w = "fresh (node1_file pretty200) all_pong"
  have r: "respond ?w (length (requests ?w) + length ([] :: node list)) (url node1) =
             Inr (JStr ''pong'')"
    by (simp add: fresh_def all_pong_def pong_def)
  have l: "loadLocal CONFIG scenario_host node1 ?w = Inr local200"
    by (simp add: model_defs scenario_defs)
  have p: "conflictResolution CONFIG = ''latest-timestamp''"
    by (simp add: CONFIG_def)
  have t: "truthy local200"
    by (simp add: local200_def)
  have c: "truthy local200 \<longrightarrow>
             conflictResolution CONFIG = ''latest-timestamp'' \<and>
             (\<exists>ld. timestampDate scenario_host local200 = Inr ld)"
    using p scenario_dates(1) by simp
  have e: "write_error ?w (localPath CONFIG scenario_host node1) = None"
    by (simp add: fresh_def)
  have s: "JSON_stringify scenario_host (JStr ''pong'') = quoted_pong"
    by (simp add: scenario_host_def local200_def remote100_def pong_def)
  have o: "console ?w = []"
    by (simp add: fresh_def)
  show ?thesis
    using scenario_distinct r l t p scenario_dates(1) e
      raw_body_persisted [OF scenario_nodes(1) scenario_distinct r l c e]
    by (simp add: scenario_paths scenario_nodes(1) scenario_names s o scenario_texts)
qed

text \<open>
  Against C9 as stated: every node answers with the body \<open>pong\<close>, which is no record.
  No node fails: each is reported as synchronized, and the string is written under each
  key.
\<close>

theorem malformed_remote_counterexample:
  "respond (fresh Map.empty all_pong) 0 (url node1) = Inr (JStr ''pong'') \<and>
   outcomes (console (synchronizeData CONFIG scenario_host (fresh Map.empty all_pong))) =
     [(''Node 1'', None), (''Node 2'', None), (''Node 3'', None)] \<and>
   fs (synchronizeData CONFIG scenario_host (fresh Map.empty all_pong)) ''data/Node_1_data.json'' =
     Some (Regular quoted_pong)"
  by (simp add: model_defs scenario_defs)



end
